theory Spec2Isabelle
  imports Main
begin

section \<open>Python values, exceptions and frames\<close>

text \<open>
  The development embeds \<^verbatim>\<open>wavelink/websocket.py\<close>: the class \<^verbatim>\<open>WebSocket\<close> with
  its methods \<^verbatim>\<open>is_connected\<close>, \<^verbatim>\<open>_connect\<close>, \<^verbatim>\<open>_listen\<close>, \<^verbatim>\<open>process_data\<close>,
  \<^verbatim>\<open>_get_event_payload\<close> and \<^verbatim>\<open>_send\<close>.

  Exceptions are values. \<open>BaseExc\<close> stands for the exceptions that do not derive from
  \<^verbatim>\<open>Exception\<close> (\<^verbatim>\<open>asyncio.CancelledError\<close>, \<^verbatim>\<open>KeyboardInterrupt\<close>): a handler
  \<^verbatim>\<open>except Exception\<close> lets them through. \<open>WSServerHandshakeError\<close> carries the
  HTTP status of the rejected handshake.
\<close>

datatype exn =
    KeyError
  | ValueError
  | TypeError
  | WSServerHandshakeError int
  | OtherException string
  | BaseExc string

fun is_Exception :: "exn \<Rightarrow> bool" where
  "is_Exception (BaseExc _) = False"
| "is_Exception _ = True"

text \<open>
  A decoded frame is what \<^verbatim>\<open>msg.json()\<close> returns: a dictionary from strings to JSON
  values. Numbers are integers here; fractional numbers are not modelled. A dictionary
  is an association list read with \<open>map_of\<close>.
\<close>

datatype json =
    JNull
  | JBool bool
  | JNum int
  | JStr string
  | JArr "json list"
  | JObj "(string \<times> json) list"

type_synonym dict = "(string \<times> json) list"

text \<open>Truth value of a Python object, as \<^verbatim>\<open>not op\<close> tests it.\<close>

fun truthy :: "json \<Rightarrow> bool" where
  "truthy JNull = False"
| "truthy (JBool b) = b"
| "truthy (JNum n) = (n \<noteq> 0)"
| "truthy (JStr s) = (s \<noteq> [])"
| "truthy (JArr xs) = (xs \<noteq> [])"
| "truthy (JObj kvs) = (kvs \<noteq> [])"

text \<open>\<^verbatim>\<open>data.get(key, None)\<close> and \<^verbatim>\<open>data[key]\<close>.\<close>

definition dict_get :: "dict \<Rightarrow> string \<Rightarrow> json" where
  "dict_get d k = (case map_of d k of None \<Rightarrow> JNull | Some v \<Rightarrow> v)"

definition getitem :: "dict \<Rightarrow> string \<Rightarrow> exn + json" where
  "getitem d k = (case map_of d k of None \<Rightarrow> Inl KeyError | Some v \<Rightarrow> Inr v)"

subsection \<open>The builtin \<^verbatim>\<open>int\<close>\<close>

text \<open>
  \<^verbatim>\<open>int(x)\<close> on a string strips surrounding whitespace (space, tab, line feed,
  vertical tab, form feed, carriage return), reads an optional sign and then decimal
  digits, where single underscores may separate digits; anything else raises
  \<^verbatim>\<open>ValueError\<close>. So does a string of more than \<open>max_str_digits\<close> digits: 4300,
  the default limit of CPython 3.11 and of the security releases of the versions before
  it. On \<^verbatim>\<open>None\<close>, a list or a dictionary \<^verbatim>\<open>int\<close> raises \<^verbatim>\<open>TypeError\<close>; a
  boolean is 0 or 1. Strings are ASCII here.
\<close>

definition is_space :: "char \<Rightarrow> bool" where
  "is_space c = (c \<in> set [CHR '' '', CHR 0x09, CHR 0x0A, CHR 0x0B, CHR 0x0C, CHR 0x0D])"

definition is_digit :: "char \<Rightarrow> bool" where
  "is_digit c = (c \<in> set ''0123456789'')"

definition digit_val :: "char \<Rightarrow> nat" where
  "digit_val c = of_char c - 48"

definition max_str_digits :: nat where
  "max_str_digits = 4300"

text \<open>
  \<open>digits prev acc cs\<close> reads the rest \<open>cs\<close> of a digit string; \<open>prev\<close> tells whether
  the character just read was a digit (an underscore is legal only then, and the string
  may end only then). \<open>read_digits\<close> reads a whole digit string and then applies the
  limit to the number of its digits, underscores not counted.
\<close>

fun digits :: "bool \<Rightarrow> nat \<Rightarrow> string \<Rightarrow> nat option" where
  "digits prev acc [] = (if prev then Some acc else None)"
| "digits prev acc (c # cs) =
     (if is_digit c then digits True (10 * acc + digit_val c) cs
      else if c = CHR ''_'' \<and> prev then digits False acc cs
      else None)"

definition read_digits :: "string \<Rightarrow> nat option" where
  "read_digits cs =
     (case digits False 0 cs of
        None \<Rightarrow> None
      | Some n \<Rightarrow> (if max_str_digits < length (filter is_digit cs) then None else Some n))"

definition strip :: "string \<Rightarrow> string" where
  "strip s = rev (dropWhile is_space (rev (dropWhile is_space s)))"

definition int_of_str :: "string \<Rightarrow> exn + int" where
  "int_of_str s =
     (case strip s of
        [] \<Rightarrow> Inl ValueError
      | c # cs \<Rightarrow>
          (if c = CHR ''-'' then
             (case read_digits cs of None \<Rightarrow> Inl ValueError | Some n \<Rightarrow> Inr (- int n))
           else if c = CHR ''+'' then
             (case read_digits cs of None \<Rightarrow> Inl ValueError | Some n \<Rightarrow> Inr (int n))
           else
             (case read_digits (c # cs) of None \<Rightarrow> Inl ValueError | Some n \<Rightarrow> Inr (int n))))"

fun py_int :: "json \<Rightarrow> exn + int" where
  "py_int JNull = Inl TypeError"
| "py_int (JBool b) = Inr (if b then 1 else 0)"
| "py_int (JNum n) = Inr n"
| "py_int (JStr s) = int_of_str s"
| "py_int (JArr _) = Inl TypeError"
| "py_int (JObj _) = Inl TypeError"

section \<open>Backoff\<close>

text \<open>
  Modelled from the spec: the class \<^verbatim>\<open>ExponentialBackoff\<close> of \<^verbatim>\<open>wavelink/backoff.py\<close>,
  which the source imports and which is not among the source files. The specification
  gives it an exponent counter, a delay \<open>base ^ min exponent cap\<close> per call, no effect
  but the increment of the counter, and a reset that sets the counter back to zero.
  The ceiling \<open>cap\<close> is a tunable the source does not pass; it is a parameter here.
\<close>

record backoff =
  base :: nat
  cap :: nat
  exponent :: nat

definition ExponentialBackoff :: "nat \<Rightarrow> nat \<Rightarrow> backoff" where
  "ExponentialBackoff c b = \<lparr>base = b, cap = c, exponent = 0\<rparr>"

definition delay :: "backoff \<Rightarrow> nat \<times> backoff" where
  "delay b = (base b ^ min (exponent b) (cap b), b\<lparr>exponent := exponent b + 1\<rparr>)"

definition reset :: "backoff \<Rightarrow> backoff" where
  "reset b = b\<lparr>exponent := 0\<rparr>"

section \<open>The state of a WebSocket and its Node\<close>

text \<open>
  The event classes of \<^verbatim>\<open>wavelink/events.py\<close> hold the frame they are built from;
  \<^verbatim>\<open>process_data\<close> stores the resolved player in the frame under \<^verbatim>\<open>'player'\<close> first,
  so a payload carries the frame and the player.
\<close>

datatype 'p payload =
    TrackEnd dict 'p
  | TrackStart dict 'p
  | TrackException dict 'p
  | TrackStuck dict 'p
  | WebsocketClosed dict 'p

text \<open>
  The coroutine \<^verbatim>\<open>_listen\<close> is a task that is suspended either in
  \<^verbatim>\<open>self._websocket.receive()\<close> or in \<^verbatim>\<open>asyncio.sleep(retry)\<close>; its only local
  variable that lives across iterations is \<^verbatim>\<open>backoff\<close>. A task that ended with an
  uncaught exception stays in \<^verbatim>\<open>self._task\<close>.
\<close>

datatype pump =
    Receiving backoff
  | Sleeping backoff nat
  | Crashed exn

datatype task_kind = ListenTask | ConnectTask | ProcessTask dict

text \<open>
  Everything the object does to its collaborators is appended to a trace, in order:
  notifications given to \<^verbatim>\<open>bot.dispatch\<close>, handshakes, text frames written, sleeps,
  tasks created on the event loop, and what is written to the log and to standard error
  (debug messages are left out).
\<close>

datatype 'p effect =
    Dispatch string "'p payload option"
  | WsConnect string
  | SendStr string
  | Sleep nat
  | CreateTask task_kind
  | PrintAuthFailed
  | LogError exn
  | LogWarning nat
  | PrintException exn

text \<open>
  The fields of \<^verbatim>\<open>WebSocket\<close> that the methods read or write, with the fields of the
  Node they reach through \<^verbatim>\<open>self._node\<close> (\<open>available\<close>, \<open>stats\<close>, \<open>players\<close>).
  \<open>websocket\<close> is \<open>None\<close> for no handle and \<open>Some c\<close> for a handle whose
  \<^verbatim>\<open>closed\<close> attribute is \<open>c\<close>. \<open>closed_attr\<close> is \<^verbatim>\<open>self._closed\<close>, which
  \<^verbatim>\<open>__init__\<close> does not create. \<open>host\<close> and \<open>port\<close> are kept as they are printed.
\<close>

record ('p, 'st) ws =
  secure :: bool
  host :: string
  port :: string
  auto_reconnect :: bool
  websocket :: "bool option"
  last_exc :: "exn option"
  task :: "pump option"
  closed_attr :: "bool option"
  available :: bool
  stats :: "'st option"
  players :: "int \<rightharpoonup> 'p"
  trace :: "'p effect list"

text \<open>
  What the methods call and this file does not define: the serializer given to the
  constructor (\<^verbatim>\<open>dumps\<close>, which returns text or bytes), \<^verbatim>\<open>bytes.decode('utf-8')\<close>,
  the constructor \<^verbatim>\<open>Stats(node, data)\<close>, the player's \<^verbatim>\<open>update_state\<close> (it returns the
  player as it left it and the exception it raised, if any), whether
  \<^verbatim>\<open>bot.dispatch\<close> raises for a given notification name and whether
  \<^verbatim>\<open>send_str\<close> raises for a given text, and the ceiling of the backoff.
\<close>

datatype dumped = Text string | Binary string

record ('p, 'st) env =
  dumps :: "dict \<Rightarrow> exn + dumped"
  decode_utf8 :: "string \<Rightarrow> exn + string"
  Stats :: "dict \<Rightarrow> exn + 'st"
  update_state :: "'p \<Rightarrow> dict \<Rightarrow> 'p \<times> exn option"
  dispatch_exc :: "string \<Rightarrow> exn option"
  send_str_exc :: "string \<Rightarrow> exn option"
  backoff_cap :: nat

text \<open>
  A call either returns or raises; both leave a state behind, since the mutations made
  before a \<^verbatim>\<open>raise\<close> stay.
\<close>

datatype ('p, 'st) outcome =
    Returned "('p, 'st) ws"
  | Raised exn "('p, 'st) ws"

fun state_of :: "('p, 'st) outcome \<Rightarrow> ('p, 'st) ws" where
  "state_of (Returned s) = s"
| "state_of (Raised e s) = s"

section \<open>The methods\<close>

definition is_connected :: "('p, 'st) ws \<Rightarrow> bool" where
  "is_connected s = (case websocket s of None \<Rightarrow> False | Some c \<Rightarrow> \<not> c)"

text \<open>\<^verbatim>\<open>self.bot.dispatch(name, self._node, payload)\<close>.\<close>

definition dispatch ::
  "('p, 'st) env \<Rightarrow> string \<Rightarrow> 'p payload option \<Rightarrow> ('p, 'st) ws \<Rightarrow> ('p, 'st) outcome" where
  "dispatch env name pl s =
     (case dispatch_exc env name of
        Some e \<Rightarrow> Raised e s
      | None \<Rightarrow> Returned (s\<lparr>trace := trace s @ [Dispatch name pl]\<rparr>))"

text \<open>
  \<^verbatim>\<open>_get_event_payload\<close>: an \<^verbatim>\<open>if\<close>/\<^verbatim>\<open>elif\<close> chain with no final \<^verbatim>\<open>else\<close>, so any
  other name falls off the end and the method returns \<^verbatim>\<open>None\<close>.
\<close>

definition get_event_payload :: "json \<Rightarrow> dict \<Rightarrow> 'p \<Rightarrow> (string \<times> 'p payload) option" where
  "get_event_payload name data player =
     (if name = JStr ''TrackEndEvent'' then Some (''wavelink_track_end'', TrackEnd data player)
      else if name = JStr ''TrackStartEvent'' then
        Some (''wavelink_track_start'', TrackStart data player)
      else if name = JStr ''TrackExceptionEvent'' then
        Some (''wavelink_track_exception'', TrackException data player)
      else if name = JStr ''TrackStuckEvent'' then
        Some (''wavelink_track_stuck'', TrackStuck data player)
      else if name = JStr ''WebSocketClosedEvent'' then
        Some (''wavelink_websocket_closed'', WebsocketClosed data player)
      else None)"

text \<open>\<^verbatim>\<open>self._node.players[int(data['guildId'])]\<close>, with the key it was found under.\<close>

definition lookup_player :: "('p, 'st) ws \<Rightarrow> dict \<Rightarrow> exn + (int \<times> 'p)" where
  "lookup_player s data =
     (case getitem data ''guildId'' of
        Inl e \<Rightarrow> Inl e
      | Inr v \<Rightarrow>
          (case py_int v of
             Inl e \<Rightarrow> Inl e
           | Inr g \<Rightarrow> (case players s g of None \<Rightarrow> Inl KeyError | Some p \<Rightarrow> Inr (g, p))))"

text \<open>
  The \<^verbatim>\<open>event\<close> branch of \<^verbatim>\<open>process_data\<close>. Only the lookup is inside the first
  \<^verbatim>\<open>try\<close>; \<^verbatim>\<open>data['type']\<close> and the unpacking of the pair are outside any handler, and
  unpacking \<^verbatim>\<open>None\<close> raises \<^verbatim>\<open>TypeError\<close>. The dispatch is inside
  \<^verbatim>\<open>try ... except Exception\<close>, which prints the exception and goes on.
\<close>

definition process_event ::
  "('p, 'st) env \<Rightarrow> dict \<Rightarrow> ('p, 'st) ws \<Rightarrow> ('p, 'st) outcome" where
  "process_event env data s =
     (case lookup_player s data of
        Inl e \<Rightarrow> (if e = KeyError then Returned s else Raised e s)
      | Inr (g, player) \<Rightarrow>
          (case getitem data ''type'' of
             Inl e \<Rightarrow> Raised e s
           | Inr name \<Rightarrow>
               (case get_event_payload name data player of
                  None \<Rightarrow> Raised TypeError s
                | Some (listener, pl) \<Rightarrow>
                    (case dispatch env listener (Some pl) s of
                       Returned s' \<Rightarrow> Returned s'
                     | Raised e s' \<Rightarrow>
                         (if is_Exception e
                          then Returned (s'\<lparr>trace := trace s' @ [PrintException e]\<rparr>)
                          else Raised e s')))))"

text \<open>
  The \<^verbatim>\<open>playerUpdate\<close> branch. The lookup and the awaited \<^verbatim>\<open>update_state\<close> are one
  expression inside \<^verbatim>\<open>try ... except KeyError: pass\<close>.
\<close>

definition process_player_update ::
  "('p, 'st) env \<Rightarrow> dict \<Rightarrow> ('p, 'st) ws \<Rightarrow> ('p, 'st) outcome" where
  "process_player_update env data s =
     (case lookup_player s data of
        Inl e \<Rightarrow> (if e = KeyError then Returned s else Raised e s)
      | Inr (g, player) \<Rightarrow>
          (case update_state env player data of
             (player', None) \<Rightarrow> Returned (s\<lparr>players := (players s)(g \<mapsto> player')\<rparr>)
           | (player', Some e) \<Rightarrow>
               (if e = KeyError then Returned (s\<lparr>players := (players s)(g \<mapsto> player')\<rparr>)
                else Raised e (s\<lparr>players := (players s)(g \<mapsto> player')\<rparr>))))"

text \<open>
  \<^verbatim>\<open>process_data\<close>. The test for \<^verbatim>\<open>'stats'\<close> is an \<^verbatim>\<open>if\<close> of its own; the tests for
  \<^verbatim>\<open>'event'\<close> and \<^verbatim>\<open>'playerUpdate'\<close> follow it as \<^verbatim>\<open>if\<close>/\<^verbatim>\<open>elif\<close>.
\<close>

definition process_data ::
  "('p, 'st) env \<Rightarrow> dict \<Rightarrow> ('p, 'st) ws \<Rightarrow> ('p, 'st) outcome" where
  "process_data env data s =
     (let op = dict_get data ''op'' in
      if \<not> truthy op then Returned s
      else
        (case (if op = JStr ''stats''
               then (case Stats env data of
                       Inl e \<Rightarrow> Raised e s
                     | Inr st \<Rightarrow> Returned (s\<lparr>stats := Some st\<rparr>))
               else Returned s) of
           Raised e s1 \<Rightarrow> Raised e s1
         | Returned s1 \<Rightarrow>
             (if op = JStr ''event'' then process_event env data s1
              else if op = JStr ''playerUpdate'' then process_player_update env data s1
              else Returned s1)))"

text \<open>
  \<^verbatim>\<open>_send\<close>. Nothing is done unless \<^verbatim>\<open>is_connected\<close>; otherwise the message is
  serialized, decoded when the serializer gave bytes, and handed to the awaited
  \<^verbatim>\<open>send_str\<close>, the only suspension point of the method.
\<close>

definition send :: "('p, 'st) env \<Rightarrow> dict \<Rightarrow> ('p, 'st) ws \<Rightarrow> ('p, 'st) outcome" where
  "send env data s =
     (if is_connected s then
        (case dumps env data of
           Inl e \<Rightarrow> Raised e s
         | Inr d \<Rightarrow>
             (case (case d of Text t \<Rightarrow> Inr t | Binary b \<Rightarrow> decode_utf8 env b) of
                Inl e \<Rightarrow> Raised e s
              | Inr data_str \<Rightarrow>
                  (case send_str_exc env data_str of
                     Some e \<Rightarrow> Raised e s
                   | None \<Rightarrow> Returned (s\<lparr>trace := trace s @ [SendStr data_str]\<rparr>))))
      else Returned s)"

definition uri :: "('p, 'st) ws \<Rightarrow> string" where
  "uri s = (if secure s then ''wss://'' else ''ws://'') @ host s @ '':'' @ port s"

definition is_auth_failure :: "exn \<Rightarrow> bool" where
  "is_auth_failure error =
     (case error of WSServerHandshakeError status \<Rightarrow> status = 401 | _ \<Rightarrow> False)"

text \<open>
  The task that \<^verbatim>\<open>create_task(self._listen())\<close> makes: the coroutine creates
  \<^verbatim>\<open>ExponentialBackoff(base=7)\<close> and suspends in its first \<^verbatim>\<open>receive\<close>.
\<close>

definition new_listen_task :: "('p, 'st) env \<Rightarrow> pump" where
  "new_listen_task env = Receiving (ExponentialBackoff (backoff_cap env) 7)"

text \<open>
  \<^verbatim>\<open>_connect\<close>, from the point where \<^verbatim>\<open>wait_until_ready\<close> has returned. \<open>hs\<close> is
  what the handshake \<^verbatim>\<open>ws_connect\<close> does if it is attempted: \<open>None\<close> when it returns
  a new open handle, \<open>Some e\<close> when it raises \<open>e\<close>. The method runs as one step: no other
  task is interleaved at its suspension points.
\<close>

definition connect ::
  "('p, 'st) env \<Rightarrow> exn option \<Rightarrow> ('p, 'st) ws \<Rightarrow> ('p, 'st) outcome" where
  "connect env hs s =
     (case (if \<not> is_connected s then
              (case hs of
                 None \<Rightarrow> Inr (s\<lparr>websocket := Some False, trace := trace s @ [WsConnect (uri s)]\<rparr>)
               | Some error \<Rightarrow> Inl (error, s\<lparr>trace := trace s @ [WsConnect (uri s)]\<rparr>))
            else Inr s) of
        Inl (error, s1) \<Rightarrow>
          (if is_Exception error then
             (let s2 = s1\<lparr>last_exc := Some error, available := False\<rparr> in
              if is_auth_failure error
              then Returned (s2\<lparr>trace := trace s2 @ [PrintAuthFailed]\<rparr>)
              else Returned (s2\<lparr>trace := trace s2 @ [LogError error, PrintException error]\<rparr>))
           else Raised error s1)
      | Inr s1 \<Rightarrow>
          (let s2 = (if task s1 = None
                     then s1\<lparr>task := Some (new_listen_task env),
                             trace := trace s1 @ [CreateTask ListenTask]\<rparr>
                     else s1);
               s3 = s2\<lparr>last_exc := None, closed_attr := Some False, available := True\<rparr>
           in if is_connected s3 then dispatch env ''wavelink_node_ready'' None s3
              else Returned s3))"

subsection \<open>The message pump\<close>

text \<open>
  What \<^verbatim>\<open>await self._websocket.receive()\<close> gives the loop: the message of type
  \<^verbatim>\<open>CLOSED\<close>, any other message with the result of its \<^verbatim>\<open>json()\<close> (a dictionary, or
  the exception the decoding raises), or an exception raised by the receive itself.
\<close>

datatype recv = CLOSED | Message "exn + dict" | RecvRaised exn

text \<open>
  One iteration of the loop of \<^verbatim>\<open>_listen\<close> is cut at its suspension points.
  \<open>listen_receive\<close> runs from the return of \<^verbatim>\<open>receive\<close> to the next suspension:
  the end of the coroutine when auto-reconnect is off (\<^verbatim>\<open>self._task\<close> is cleared; the
  \<^verbatim>\<open>cancel\<close> of the task by itself inside \<^verbatim>\<open>try ... except: pass\<close> has no other
  effect, since the coroutine returns at once), the sleep, or the next receive.
  \<open>listen_wake\<close> runs from the return of \<^verbatim>\<open>asyncio.sleep\<close> to the next receive.
  The field \<open>task\<close> holds where the coroutine is suspended; an exception that leaves the
  coroutine ends the task, which stays in \<^verbatim>\<open>self._task\<close>.
\<close>

definition listen_receive ::
  "('p, 'st) env \<Rightarrow> recv \<Rightarrow> backoff \<Rightarrow> ('p, 'st) ws \<Rightarrow> ('p, 'st) ws" where
  "listen_receive env msg b s =
     (case msg of
        RecvRaised e \<Rightarrow> s\<lparr>task := Some (Crashed e)\<rparr>
      | CLOSED \<Rightarrow>
          (let s1 = s\<lparr>closed_attr := Some True\<rparr> in
           if \<not> auto_reconnect s1 then
             (case dispatch env ''wavelink_node_connection_closed'' None s1 of
                Raised e s2 \<Rightarrow> s2\<lparr>task := Some (Crashed e)\<rparr>
              | Returned s2 \<Rightarrow> s2\<lparr>task := None\<rparr>)
           else
             (case delay b of
                (retry, b') \<Rightarrow>
                  s1\<lparr>task := Some (Sleeping b' retry),
                     trace := trace s1 @ [LogWarning retry, Sleep retry]\<rparr>))
      | Message payload \<Rightarrow>
          (case payload of
             Inl e \<Rightarrow> s\<lparr>task := Some (Crashed e)\<rparr>
           | Inr data \<Rightarrow>
               s\<lparr>task := Some (Receiving b),
                 trace := trace s @ [CreateTask (ProcessTask data)]\<rparr>))"

definition listen_wake :: "backoff \<Rightarrow> ('p, 'st) ws \<Rightarrow> ('p, 'st) ws" where
  "listen_wake b s =
     (if \<not> is_connected s
      then s\<lparr>task := Some (Receiving b), trace := trace s @ [CreateTask ConnectTask]\<rparr>
      else s\<lparr>task := Some (Receiving b)\<rparr>)"

subsection \<open>The event loop\<close>

text \<open>
  The tasks share one cooperative event loop, so a run is a sequence of steps, each of
  them one task running from one suspension point to the next: the pump receiving a
  message, the pump waking from its sleep, a call of \<^verbatim>\<open>_connect\<close> with the outcome of
  its handshake, a call of \<^verbatim>\<open>process_data\<close> or of \<^verbatim>\<open>_send\<close>, and the transport
  closing the handle. An exception that leaves a task created with \<^verbatim>\<open>create_task\<close>
  goes to the event loop and the state stays as the task left it.
\<close>

datatype event =
    Receive recv
  | Wake
  | Connect "exn option"
  | Process dict
  | Send dict
  | TransportClosed

definition step :: "('p, 'st) env \<Rightarrow> event \<Rightarrow> ('p, 'st) ws \<Rightarrow> ('p, 'st) ws" where
  "step env ev s =
     (case ev of
        Receive m \<Rightarrow>
          (case task s of Some (Receiving b) \<Rightarrow> listen_receive env m b s | _ \<Rightarrow> s)
      | Wake \<Rightarrow>
          (case task s of Some (Sleeping b r) \<Rightarrow> listen_wake b s | _ \<Rightarrow> s)
      | Connect hs \<Rightarrow> state_of (connect env hs s)
      | Process data \<Rightarrow> state_of (process_data env data s)
      | Send data \<Rightarrow> state_of (send env data s)
      | TransportClosed \<Rightarrow> s\<lparr>websocket := map_option (\<lambda>c. True) (websocket s)\<rparr>)"

fun run :: "('p, 'st) env \<Rightarrow> event list \<Rightarrow> ('p, 'st) ws \<Rightarrow> ('p, 'st) ws" where
  "run env [] s = s"
| "run env (ev # evs) s = run env evs (step env ev s)"

text \<open>The delays slept, and the notifications of one name, in a trace.\<close>

fun sleeps :: "'p effect list \<Rightarrow> nat list" where
  "sleeps [] = []"
| "sleeps (Sleep r # tr) = r # sleeps tr"
| "sleeps (_ # tr) = sleeps tr"

definition notifications :: "string \<Rightarrow> 'p effect list \<Rightarrow> nat" where
  "notifications name tr = length (filter (\<lambda>x. case x of Dispatch n _ \<Rightarrow> n = name | _ \<Rightarrow> False) tr)"

definition handshakes :: "'p effect list \<Rightarrow> nat" where
  "handshakes tr = length (filter (\<lambda>x. case x of WsConnect _ \<Rightarrow> True | _ \<Rightarrow> False) tr)"

subsection \<open>A concrete Node\<close>

text \<open>
  The object as \<^verbatim>\<open>__init__\<close> leaves it (auto-reconnect defaults to true), and
  collaborators none of which raises. Players and statistics are natural numbers and
  dictionaries here.
\<close>

definition fresh :: "(nat, dict) ws" where
  "fresh = \<lparr>secure = False, host = ''localhost'', port = ''2333'', auto_reconnect = True,
            websocket = None, last_exc = None, task = None, closed_attr = None,
            available = False, stats = None, players = Map.empty, trace = []\<rparr>"

definition quiet :: "(nat, dict) env" where
  "quiet = \<lparr>dumps = (\<lambda>d. Inr (Text ''{}'')), decode_utf8 = Inr, Stats = Inr,
            update_state = (\<lambda>p d. (Suc p, None)), dispatch_exc = (\<lambda>n. None),
            send_str_exc = (\<lambda>t. None), backoff_cap = 10\<rparr>"

text \<open>
  Frames and states used to run the methods: a statistics frame, a player update and an
  event of a kind the client does not know, both for guild 42; a player update whose
  \<^verbatim>\<open>guildId\<close> is no number and one that has none; a Node with one player, for
  guild 42; an object with an open handle; and collaborators whose
  \<^verbatim>\<open>update_state\<close> raises a given exception.
\<close>

definition stats_frame :: dict where
  "stats_frame = [(''op'', JStr ''stats''), (''players'', JNum 1)]"

definition update_frame :: dict where
  "update_frame = [(''op'', JStr ''playerUpdate''), (''guildId'', JStr ''42''),
                   (''state'', JObj [(''position'', JNum 0)])]"

definition unknown_event_frame :: dict where
  "unknown_event_frame = [(''op'', JStr ''event''), (''guildId'', JStr ''42''),
                          (''type'', JStr ''FutureEvent'')]"



definition one_player :: "(nat, dict) ws" where
  "one_player = fresh\<lparr>players := [42 \<mapsto> 0]\<rparr>"

definition live :: "(nat, dict) ws" where
  "live = fresh\<lparr>websocket := Some False\<rparr>"

definition failing_update :: "exn \<Rightarrow> (nat, dict) env" where
  "failing_update e = quiet\<lparr>update_state := (\<lambda>p d. (p, Some e))\<rparr>"

text \<open>
  An object with an open handle, a pump suspended in \<^verbatim>\<open>receive\<close> and auto-reconnect
  off; and a run in which the handle is closed after a first connection and the
  reconnection that the pump schedules succeeds.
\<close>

definition manual :: "(nat, dict) ws" where
  "manual = live\<lparr>auto_reconnect := False, task := Some (new_listen_task quiet)\<rparr>"

definition reconnect_run :: "event list" where
  "reconnect_run = [Connect None, TransportClosed, Receive CLOSED, Wake, Connect None]"

text \<open>
  The invariant of the pump while auto-reconnect stays on: the delays slept so far are in
  non-decreasing order and none exceeds the delay the backoff of the pump gives next.
\<close>

definition pump_ok :: "('p, 'st) ws \<Rightarrow> bool" where
  "pump_ok s =
     (auto_reconnect s \<and> sorted (sleeps (trace s)) \<and>
      (case task s of
         None \<Rightarrow> sleeps (trace s) = []
       | Some (Receiving b) \<Rightarrow> 1 \<le> base b \<and> (\<forall>d \<in> set (sleeps (trace s)). d \<le> fst (delay b))
       | Some (Sleeping b r) \<Rightarrow> 1 \<le> base b \<and> (\<forall>d \<in> set (sleeps (trace s)). d \<le> fst (delay b))
       | Some (Crashed e) \<Rightarrow> True))"

section \<open>Properties of the message pump\<close>

lemma sleeps_append: "sleeps (xs @ ys) = sleeps xs @ sleeps ys"
  by (induction xs rule: sleeps.induct) simp_all

lemma delay_mono: "1 \<le> base b \<Longrightarrow> fst (delay b) \<le> fst (delay (snd (delay b)))"
  by (simp add: delay_def power_increasing)

lemma delay_base: "base (snd (delay b)) = base b"
  by (simp add: delay_def)

lemma process_data_pump:
  "task (state_of (process_data env d s)) = task s \<and>
   auto_reconnect (state_of (process_data env d s)) = auto_reconnect s \<and>
   sleeps (trace (state_of (process_data env d s))) = sleeps (trace s)"
  by (auto simp: process_data_def process_event_def process_player_update_def dispatch_def
        Let_def sleeps_append split: sum.splits option.splits prod.splits)

lemma send_pump:
  "task (state_of (send env d s)) = task s \<and>
   auto_reconnect (state_of (send env d s)) = auto_reconnect s \<and>
   sleeps (trace (state_of (send env d s))) = sleeps (trace s)"
  by (auto simp: send_def sleeps_append split: sum.splits option.splits dumped.splits)

lemma connect_pump:
  "task (state_of (connect env hs s)) =
     (if task s = None \<and> (is_connected s \<or> hs = None)
      then Some (new_listen_task env) else task s) \<and>
   auto_reconnect (state_of (connect env hs s)) = auto_reconnect s \<and>
   sleeps (trace (state_of (connect env hs s))) = sleeps (trace s)"
  by (auto simp: connect_def dispatch_def Let_def sleeps_append is_connected_def
        split: sum.splits option.splits)

lemma pump_ok_cong:
  "task s' = task s \<Longrightarrow> auto_reconnect s' = auto_reconnect s \<Longrightarrow>
   sleeps (trace s') = sleeps (trace s) \<Longrightarrow> pump_ok s' = pump_ok s"
  by (simp add: pump_ok_def cong: option.case_cong pump.case_cong)

lemma pump_ok_step: "pump_ok s \<Longrightarrow> pump_ok (step env ev s)"
proof (cases ev)
  case (Receive m)
  assume ok: "pump_ok s"
  show ?thesis
  proof (cases "task s")
    case None
    with ok Receive show ?thesis by (simp add: step_def)
  next
    case (Some p)
    show ?thesis
    proof (cases p)
      case (Receiving b)
      with ok Some Receive show ?thesis
        using delay_mono [of b]
        by (cases m) (auto simp: step_def listen_receive_def pump_ok_def sleeps_append
            sorted_append delay_base Let_def split_beta split: sum.splits dest: order_trans)
    next
      case (Sleeping b r)
      with ok Some Receive show ?thesis by (simp add: step_def)
    next
      case (Crashed e)
      with ok Some Receive show ?thesis by (simp add: step_def)
    qed
  qed
next
  case Wake
  assume ok: "pump_ok s"
  then show ?thesis using Wake
    by (auto simp: step_def listen_wake_def pump_ok_def sleeps_append split: option.splits pump.splits)
next
  case (Connect hs)
  assume ok: "pump_ok s"
  then show ?thesis using Connect connect_pump [of env hs s]
    by (auto simp: step_def pump_ok_def new_listen_task_def ExponentialBackoff_def split: option.splits pump.splits if_splits)
next
  case (Process d)
  assume ok: "pump_ok s"
  then show ?thesis
    using Process process_data_pump [of env d s]
      pump_ok_cong [of "state_of (process_data env d s)" s]
    by (simp add: step_def)
next
  case (Send d)
  assume ok: "pump_ok s"
  then show ?thesis
    using Send send_pump [of env d s] pump_ok_cong [of "state_of (send env d s)" s]
    by (simp add: step_def)
next
  case TransportClosed
  assume ok: "pump_ok s"
  then show ?thesis
    using TransportClosed
      pump_ok_cong [of "s\<lparr>websocket := map_option (\<lambda>c. True) (websocket s)\<rparr>" s]
    by (simp add: step_def)
qed

lemma pump_ok_run: "pump_ok s \<Longrightarrow> pump_ok (run env evs s)"
  by (induction evs arbitrary: s) (simp_all add: pump_ok_step)

section \<open>The dispatcher\<close>

lemmas int_simps =
  int_of_str_def read_digits_def max_str_digits_def strip_def is_space_def is_digit_def
  digit_val_def


text \<open>
  C9. A frame whose \<^verbatim>\<open>op\<close> is \<^verbatim>\<open>'stats'\<close> replaces the statistics of the Node by
  the snapshot \<^verbatim>\<open>Stats(node, data)\<close> built from that frame, and changes nothing else:
  the trace is the same, so no notification is dispatched, and the players are the same.
  The constructor \<^verbatim>\<open>Stats\<close> is assumed to return.
\<close>

theorem stats_frame_replaces_statistics:
  assumes "dict_get data ''op'' = JStr ''stats''" and "Stats env data = Inr st"
  shows "process_data env data s = Returned (s\<lparr>stats := Some st\<rparr>)
         \<and> trace (state_of (process_data env data s)) = trace s
         \<and> players (state_of (process_data env data s)) = players s"
  using assms by (simp add: process_data_def)

theorem stats_frame_replaces_statistics_witness:
  "dict_get stats_frame ''op'' = JStr ''stats'' \<and> Stats quiet stats_frame = Inr stats_frame
   \<and> process_data quiet stats_frame fresh = Returned (fresh\<lparr>stats := Some stats_frame\<rparr>)
   \<and> trace (state_of (process_data quiet stats_frame fresh)) = []"
  using stats_frame_replaces_statistics [of stats_frame quiet stats_frame fresh]
  by (simp add: dict_get_def quiet_def stats_frame_def fresh_def)




text \<open>
  C3, as the specification states it, fails: the handler \<^verbatim>\<open>except KeyError: pass\<close>
  encloses the call of \<^verbatim>\<open>update_state\<close> together with the lookup, so a
  \<^verbatim>\<open>KeyError\<close> raised by \<^verbatim>\<open>update_state\<close> of a player that was found does not leave
  \<^verbatim>\<open>process_data\<close>.
\<close>

theorem update_state_keyerror_absorbed:
  "update_state (failing_update KeyError) 0 update_frame = (0, Some KeyError)
   \<and> process_data (failing_update KeyError) update_frame one_player = Returned one_player"
  by (simp add: process_data_def process_player_update_def lookup_player_def dict_get_def
      getitem_def update_frame_def one_player_def fresh_def failing_update_def quiet_def int_simps)

text \<open>
  C3, amended. For a frame whose \<^verbatim>\<open>op\<close> is \<^verbatim>\<open>'playerUpdate'\<close> and whose player is
  found, an exception raised by \<^verbatim>\<open>update_state\<close> leaves \<^verbatim>\<open>process_data\<close> uncaught
  unless it is a \<^verbatim>\<open>KeyError\<close>; a \<^verbatim>\<open>KeyError\<close> is absorbed as the lookup miss is. In
  both cases the player stays as \<^verbatim>\<open>update_state\<close> left it.
\<close>

theorem update_state_exceptions:
  assumes "dict_get data ''op'' = JStr ''playerUpdate''"
    and "getitem data ''guildId'' = Inr v" and "py_int v = Inr g" and "players s g = Some p"
    and "update_state env p data = (p', Some e)"
  shows "process_data env data s =
           (if e = KeyError then Returned (s\<lparr>players := (players s)(g \<mapsto> p')\<rparr>)
            else Raised e (s\<lparr>players := (players s)(g \<mapsto> p')\<rparr>))"
  using assms by (simp add: process_data_def process_player_update_def lookup_player_def)

theorem update_state_exceptions_witness:
  "dict_get update_frame ''op'' = JStr ''playerUpdate''
   \<and> getitem update_frame ''guildId'' = Inr (JStr ''42'') \<and> py_int (JStr ''42'') = Inr 42
   \<and> players one_player 42 = Some 0
   \<and> update_state (failing_update ValueError) 0 update_frame = (0, Some ValueError)
   \<and> process_data (failing_update ValueError) update_frame one_player
       = Raised ValueError (one_player\<lparr>players := (players one_player)(42 \<mapsto> 0)\<rparr>)"
proof -
  have a: "dict_get update_frame ''op'' = JStr ''playerUpdate''"
    by (simp add: dict_get_def update_frame_def)
  have b: "getitem update_frame ''guildId'' = Inr (JStr ''42'')"
    by (simp add: getitem_def update_frame_def)
  have c: "py_int (JStr ''42'') = Inr 42" by (simp add: int_simps)
  have d: "players one_player 42 = Some 0" by (simp add: one_player_def)
  have e: "update_state (failing_update ValueError) 0 update_frame = (0, Some ValueError)"
    by (simp add: failing_update_def)
  show ?thesis
    using a b c d e update_state_exceptions [OF a b c d e]
    by simp
qed

text \<open>
  C2. An \<^verbatim>\<open>event\<close> frame whose player is found and whose \<^verbatim>\<open>type\<close> is none of the
  five known names emits nothing and is no fatal error. \<^verbatim>\<open>_get_event_payload\<close> has
  no branch for another name and returns \<^verbatim>\<open>None\<close>, and unpacking \<^verbatim>\<open>None\<close> into
  \<^verbatim>\<open>listener, payload\<close> raises \<^verbatim>\<open>TypeError\<close> before anything is dispatched. That
  exception ends the task that \<^verbatim>\<open>_listen\<close> created for the frame and goes no further:
  the step of that task leaves the state, and so the trace, as it found them. The pump
  that received the frame is suspended in \<^verbatim>\<open>receive\<close> again, with the backoff it had,
  and all that the two steps add to the trace is the creation of the task.
\<close>

theorem unknown_event_type_not_fatal:
  assumes "dict_get data ''op'' = JStr ''event''"
    and "getitem data ''guildId'' = Inr v" and "py_int v = Inr g" and "players s g = Some p"
    and "getitem data ''type'' = Inr name"
    and "name \<notin> JStr ` {''TrackEndEvent'', ''TrackStartEvent'', ''TrackExceptionEvent'',
                         ''TrackStuckEvent'', ''WebSocketClosedEvent''}"
  shows "process_data env data s = Raised TypeError s
         \<and> step env (Process data) s = s
         \<and> (task s = Some (Receiving b) \<longrightarrow>
              run env [Receive (Message (Inr data)), Process data] s
                = s\<lparr>trace := trace s @ [CreateTask (ProcessTask data)]\<rparr>)"
proof -
  have raised: "process_data env data s' = Raised TypeError s'" if "players s' = players s"
    for s' :: "('a, 'b) ws"
    using assms that
    by (simp add: process_data_def process_event_def lookup_player_def get_event_payload_def)
  have one: "process_data env data s = Raised TypeError s" by (simp add: raised)
  have two: "step env (Process data) s = s" by (simp add: step_def one)
  have three: "run env [Receive (Message (Inr data)), Process data] s
                 = s\<lparr>trace := trace s @ [CreateTask (ProcessTask data)]\<rparr>"
    if "task s = Some (Receiving b)"
    using that by (simp add: step_def listen_receive_def raised)
  show ?thesis using one two three by simp
qed

theorem unknown_event_type_not_fatal_witness:
  "dict_get unknown_event_frame ''op'' = JStr ''event''
   \<and> getitem unknown_event_frame ''guildId'' = Inr (JStr ''42'') \<and> py_int (JStr ''42'') = Inr 42
   \<and> players (one_player\<lparr>task := Some (new_listen_task quiet)\<rparr>) 42 = Some 0
   \<and> getitem unknown_event_frame ''type'' = Inr (JStr ''FutureEvent'')
   \<and> JStr ''FutureEvent'' \<notin> JStr ` {''TrackEndEvent'', ''TrackStartEvent'',
         ''TrackExceptionEvent'', ''TrackStuckEvent'', ''WebSocketClosedEvent''}
   \<and> task (one_player\<lparr>task := Some (new_listen_task quiet)\<rparr>)
       = Some (Receiving (ExponentialBackoff 10 7))
   \<and> step quiet (Process unknown_event_frame)
        (one_player\<lparr>task := Some (new_listen_task quiet)\<rparr>)
       = one_player\<lparr>task := Some (new_listen_task quiet)\<rparr>
   \<and> task (run quiet [Receive (Message (Inr unknown_event_frame)),
                       Process unknown_event_frame]
              (one_player\<lparr>task := Some (new_listen_task quiet)\<rparr>))
       = Some (Receiving (ExponentialBackoff 10 7))
   \<and> trace (run quiet [Receive (Message (Inr unknown_event_frame)),
                        Process unknown_event_frame]
               (one_player\<lparr>task := Some (new_listen_task quiet)\<rparr>))
       = [CreateTask (ProcessTask unknown_event_frame)]"
proof -
  have a: "dict_get unknown_event_frame ''op'' = JStr ''event''"
    by (simp add: dict_get_def unknown_event_frame_def)
  have b: "getitem unknown_event_frame ''guildId'' = Inr (JStr ''42'')"
    by (simp add: getitem_def unknown_event_frame_def)
  have c: "py_int (JStr ''42'') = Inr 42" by (simp add: int_simps)
  have d: "players (one_player\<lparr>task := Some (new_listen_task quiet)\<rparr>) 42 = Some 0"
    by (simp add: one_player_def)
  have e: "getitem unknown_event_frame ''type'' = Inr (JStr ''FutureEvent'')"
    by (simp add: getitem_def unknown_event_frame_def)
  have f: "JStr ''FutureEvent'' \<notin> JStr ` {''TrackEndEvent'', ''TrackStartEvent'',
         ''TrackExceptionEvent'', ''TrackStuckEvent'', ''WebSocketClosedEvent''}"
    by simp
  have g: "task (one_player\<lparr>task := Some (new_listen_task quiet)\<rparr>)
             = Some (Receiving (ExponentialBackoff 10 7))"
    by (simp add: new_listen_task_def quiet_def)
  have h: "trace (one_player\<lparr>task := Some (new_listen_task quiet)\<rparr>) = []"
    by (simp add: one_player_def fresh_def)
  show ?thesis
    using a b c d e f g h
      unknown_event_type_not_fatal
        [OF a b c d e f, where env = quiet and b = "ExponentialBackoff 10 7"]
    by simp
qed

section \<open>Sending\<close>

text \<open>
  C5. \<^verbatim>\<open>_send\<close> is gated by \<^verbatim>\<open>is_connected\<close>. Without a live handle it returns at
  once and leaves the state, and so the trace, as it found them: nothing is written, no
  exception is raised, and the awaited \<^verbatim>\<open>send_str\<close>, its only suspension point, is
  not reached. With a live handle, the text the serializer gives (decoded first when it
  gives bytes) is written as one text frame, provided serializer, decoder and transport
  return.
\<close>

theorem send_gated_by_connection:
  "(\<not> is_connected s \<longrightarrow> send env data s = Returned s)
   \<and> (is_connected s \<longrightarrow> dumps env data = Inr (Text t) \<longrightarrow> send_str_exc env t = None \<longrightarrow>
        send env data s = Returned (s\<lparr>trace := trace s @ [SendStr t]\<rparr>))
   \<and> (is_connected s \<longrightarrow> dumps env data = Inr (Binary b) \<longrightarrow> decode_utf8 env b = Inr t \<longrightarrow>
        send_str_exc env t = None \<longrightarrow>
        send env data s = Returned (s\<lparr>trace := trace s @ [SendStr t]\<rparr>))"
  by (simp add: send_def)

theorem send_gated_by_connection_witness:
  "\<not> is_connected fresh \<and> send quiet stats_frame fresh = Returned fresh
   \<and> is_connected live \<and> dumps quiet stats_frame = Inr (Text ''{}'')
   \<and> send_str_exc quiet ''{}'' = None
   \<and> send quiet stats_frame live = Returned (live\<lparr>trace := trace live @ [SendStr ''{}'']\<rparr>)"
  using send_gated_by_connection [of fresh quiet stats_frame "''{}''" "''{}''"]
    send_gated_by_connection [of live quiet stats_frame "''{}''" "''{}''"]
  by (simp add: is_connected_def fresh_def live_def quiet_def)

section \<open>Closure without auto-reconnect\<close>

text \<open>
  C6. When the pump, suspended in \<^verbatim>\<open>receive\<close>, gets the \<^verbatim>\<open>CLOSED\<close> message and
  auto-reconnect is off, it dispatches \<^verbatim>\<open>wavelink_node_connection_closed\<close> once,
  clears \<^verbatim>\<open>self._task\<close> and ends: the trace grows by that one notification, with no
  handshake and no task created, and no later message or wake-up makes the pump do
  anything. The dispatch is assumed to return.
\<close>

theorem closure_without_auto_reconnect:
  assumes "task s = Some (Receiving b)" and "\<not> auto_reconnect s"
    and "dispatch_exc env ''wavelink_node_connection_closed'' = None"
  shows "step env (Receive CLOSED) s =
           s\<lparr>closed_attr := Some True,
             trace := trace s @ [Dispatch ''wavelink_node_connection_closed'' None],
             task := None\<rparr>
         \<and> task (step env (Receive CLOSED) s) = None
         \<and> notifications ''wavelink_node_connection_closed'' (trace (step env (Receive CLOSED) s))
             = notifications ''wavelink_node_connection_closed'' (trace s) + 1
         \<and> handshakes (trace (step env (Receive CLOSED) s)) = handshakes (trace s)
         \<and> step env (Receive m) (step env (Receive CLOSED) s) = step env (Receive CLOSED) s
         \<and> step env Wake (step env (Receive CLOSED) s) = step env (Receive CLOSED) s"
  using assms
  by (simp add: step_def listen_receive_def dispatch_def notifications_def handshakes_def)

theorem closure_without_auto_reconnect_witness:
  "task manual = Some (Receiving (ExponentialBackoff 10 7)) \<and> \<not> auto_reconnect manual
   \<and> dispatch_exc quiet ''wavelink_node_connection_closed'' = None
   \<and> task (step quiet (Receive CLOSED) manual) = None
   \<and> trace (step quiet (Receive CLOSED) manual)
       = [Dispatch ''wavelink_node_connection_closed'' None]"
proof -
  have a: "task manual = Some (Receiving (ExponentialBackoff 10 7))"
    by (simp add: manual_def new_listen_task_def quiet_def)
  have b: "\<not> auto_reconnect manual" by (simp add: manual_def)
  have c: "dispatch_exc quiet ''wavelink_node_connection_closed'' = None"
    by (simp add: quiet_def)
  have d: "trace manual = []" by (simp add: manual_def live_def fresh_def)
  show ?thesis
    using a b c d closure_without_auto_reconnect [OF a b c, of CLOSED]
    by simp
qed

section \<open>Connecting\<close>

text \<open>
  C7. A call of \<^verbatim>\<open>_connect\<close> whose handshake is made and succeeds returns with a live
  handle (\<^verbatim>\<open>is_connected\<close> holds), the Node available and \<^verbatim>\<open>_last_exc\<close> cleared;
  the pump task is created exactly when \<^verbatim>\<open>self._task\<close> was empty, and otherwise the
  task is left as it was; and \<^verbatim>\<open>wavelink_node_ready\<close> is dispatched once. The
  dispatch is assumed to return.
\<close>

theorem connect_handshake_succeeds:
  assumes "\<not> is_connected s" and "dispatch_exc env ''wavelink_node_ready'' = None"
  shows "connect env None s =
           Returned (s\<lparr>websocket := Some False,
                       task := (if task s = None then Some (new_listen_task env) else task s),
                       last_exc := None, closed_attr := Some False, available := True,
                       trace := trace s @ [WsConnect (uri s)]
                                @ (if task s = None then [CreateTask ListenTask] else [])
                                @ [Dispatch ''wavelink_node_ready'' None]\<rparr>)
         \<and> is_connected (state_of (connect env None s))
         \<and> available (state_of (connect env None s))
         \<and> last_exc (state_of (connect env None s)) = None
         \<and> notifications ''wavelink_node_ready'' (trace (state_of (connect env None s)))
             = notifications ''wavelink_node_ready'' (trace s) + 1"
  using assms
  by (simp add: connect_def dispatch_def is_connected_def Let_def uri_def notifications_def)

theorem connect_handshake_succeeds_witness:
  "\<not> is_connected fresh \<and> dispatch_exc quiet ''wavelink_node_ready'' = None
   \<and> is_connected (state_of (connect quiet None fresh))
   \<and> available (state_of (connect quiet None fresh))
   \<and> last_exc (state_of (connect quiet None fresh)) = None
   \<and> task (state_of (connect quiet None fresh)) = Some (Receiving (ExponentialBackoff 10 7))
   \<and> trace (state_of (connect quiet None fresh))
       = [WsConnect ''ws://localhost:2333'', CreateTask ListenTask,
          Dispatch ''wavelink_node_ready'' None]"
proof -
  have a: "\<not> is_connected fresh" by (simp add: is_connected_def fresh_def)
  have b: "dispatch_exc quiet ''wavelink_node_ready'' = None" by (simp add: quiet_def)
  show ?thesis
    using a b connect_handshake_succeeds [OF a b]
    by (simp add: fresh_def uri_def new_listen_task_def quiet_def is_connected_def)
qed

text \<open>
  C8. A call of \<^verbatim>\<open>_connect\<close> whose handshake raises an \<^verbatim>\<open>Exception\<close> returns with
  that exception in \<^verbatim>\<open>_last_exc\<close> and the Node unavailable. A handshake error with
  status 401, and no other exception, is printed as an authorization failure; any other
  is logged as a connection failure with its traceback. The call makes that one handshake
  and no other, creates no task, leaves handle and pump as they were and dispatches no
  \<^verbatim>\<open>wavelink_node_ready\<close>.
\<close>

theorem connect_handshake_fails:
  assumes "\<not> is_connected s" and "is_Exception error"
  shows "connect env (Some error) s =
           Returned (s\<lparr>last_exc := Some error, available := False,
                       trace := trace s @ [WsConnect (uri s)]
                                @ (if error = WSServerHandshakeError 401 then [PrintAuthFailed]
                                   else [LogError error, PrintException error])\<rparr>)
         \<and> task (state_of (connect env (Some error) s)) = task s
         \<and> websocket (state_of (connect env (Some error) s)) = websocket s
         \<and> handshakes (trace (state_of (connect env (Some error) s))) = handshakes (trace s) + 1
         \<and> notifications ''wavelink_node_ready'' (trace (state_of (connect env (Some error) s)))
             = notifications ''wavelink_node_ready'' (trace s)"
  using assms
  by (cases error)
     (simp_all add: connect_def is_auth_failure_def Let_def notifications_def handshakes_def)

theorem connect_handshake_fails_witness:
  "\<not> is_connected fresh \<and> is_Exception (WSServerHandshakeError 401)
   \<and> connect quiet (Some (WSServerHandshakeError 401)) fresh =
       Returned (fresh\<lparr>last_exc := Some (WSServerHandshakeError 401), available := False,
                   trace := [WsConnect ''ws://localhost:2333'', PrintAuthFailed]\<rparr>)"
proof -
  have a: "\<not> is_connected fresh" by (simp add: is_connected_def fresh_def)
  have b: "is_Exception (WSServerHandshakeError 401)" by simp
  show ?thesis
    using a b connect_handshake_fails [OF a b, of quiet]
    by (simp add: fresh_def uri_def)
qed

text \<open>
  C10. A call of \<^verbatim>\<open>_connect\<close> while the handle is live makes no handshake and leaves
  \<^verbatim>\<open>self._websocket\<close> as it is, whatever the handshake would have done; it still marks
  the Node available and dispatches \<^verbatim>\<open>wavelink_node_ready\<close> once more. So two calls in
  a row give two such notifications for one handle, as the witness shows. The dispatch is
  assumed to return.
\<close>

theorem connect_while_connected:
  assumes "is_connected s" and "dispatch_exc env ''wavelink_node_ready'' = None"
  shows "connect env hs s =
           Returned (s\<lparr>task := (if task s = None then Some (new_listen_task env) else task s),
                       last_exc := None, closed_attr := Some False, available := True,
                       trace := trace s
                                @ (if task s = None then [CreateTask ListenTask] else [])
                                @ [Dispatch ''wavelink_node_ready'' None]\<rparr>)
         \<and> websocket (state_of (connect env hs s)) = websocket s
         \<and> handshakes (trace (state_of (connect env hs s))) = handshakes (trace s)
         \<and> available (state_of (connect env hs s))
         \<and> notifications ''wavelink_node_ready'' (trace (state_of (connect env hs s)))
             = notifications ''wavelink_node_ready'' (trace s) + 1"
  using assms
  by (simp add: connect_def dispatch_def is_connected_def Let_def notifications_def
      handshakes_def)

theorem connect_while_connected_witness:
  "is_connected (state_of (connect quiet None fresh))
   \<and> dispatch_exc quiet ''wavelink_node_ready'' = None
   \<and> websocket (state_of (connect quiet None (state_of (connect quiet None fresh))))
       = websocket (state_of (connect quiet None fresh))
   \<and> handshakes (trace (state_of (connect quiet None (state_of (connect quiet None fresh))))) = 1
   \<and> notifications ''wavelink_node_ready''
        (trace (state_of (connect quiet None (state_of (connect quiet None fresh))))) = 2"
proof -
  have a: "is_connected (state_of (connect quiet None fresh))"
    by (simp add: connect_def dispatch_def is_connected_def fresh_def quiet_def Let_def)
  have b: "dispatch_exc quiet ''wavelink_node_ready'' = None" by (simp add: quiet_def)
  have c: "trace (state_of (connect quiet None fresh))
             = [WsConnect ''ws://localhost:2333'', CreateTask ListenTask,
                Dispatch ''wavelink_node_ready'' None]"
    by (simp add: connect_def dispatch_def is_connected_def fresh_def quiet_def Let_def uri_def)
  show ?thesis
    using a b c connect_while_connected [OF a b, of None]
    by (simp add: notifications_def handshakes_def)
qed

section \<open>Backoff across reconnections\<close>

text \<open>
  C1, as the specification states it, fails in its second half. The backoff is a local
  variable of \<^verbatim>\<open>_listen\<close>, created once when the pump starts; \<^verbatim>\<open>_connect\<close> has no
  access to it and nothing resets it. In the run below the first closure is slept for
  1, the reconnection succeeds (the handle is live again), and the next closure is slept
  for 7, whereas a backoff that had been reset would give 1.
\<close>

theorem backoff_reset_counterexample:
  "is_connected (run quiet reconnect_run fresh)
   \<and> sleeps (trace (run quiet reconnect_run fresh)) = [1]
   \<and> sleeps (trace (run quiet (reconnect_run @ [TransportClosed, Receive CLOSED]) fresh)) = [1, 7]
   \<and> fst (delay (reset (ExponentialBackoff (backoff_cap quiet) 7))) = 1"
  by code_simp

text \<open>
  C1, amended. From the object as constructed, with auto-reconnect on, whatever the tasks
  do and in whatever order, the delays the pump sleeps before its reconnection attempts
  are in non-decreasing order; and a call of \<^verbatim>\<open>_connect\<close>, whatever its handshake does,
  leaves an existing pump and its backoff as they are, so a successful reconnection does
  not take the delays back to the minimum.
\<close>

theorem backoff_delays_sorted_never_reset:
  assumes "auto_reconnect s" and "task s = None" and "sleeps (trace s) = []"
  shows "sorted (sleeps (trace (run env evs s)))
         \<and> (task (run env evs s) \<noteq> None \<longrightarrow>
              task (step env (Connect hs) (run env evs s)) = task (run env evs s))"
proof -
  have "pump_ok s" using assms by (simp add: pump_ok_def)
  then have "pump_ok (run env evs s)" by (rule pump_ok_run)
  then have "sorted (sleeps (trace (run env evs s)))" by (simp add: pump_ok_def)
  moreover have "task (run env evs s) \<noteq> None \<longrightarrow>
      task (step env (Connect hs) (run env evs s)) = task (run env evs s)"
    using connect_pump [of env hs "run env evs s"] by (simp add: step_def)
  ultimately show ?thesis by simp
qed

theorem backoff_delays_sorted_never_reset_witness:
  "auto_reconnect fresh \<and> task fresh = None \<and> sleeps (trace fresh) = []
   \<and> sorted (sleeps (trace (run quiet reconnect_run fresh)))
   \<and> task (run quiet reconnect_run fresh) \<noteq> None
   \<and> task (step quiet (Connect None) (run quiet reconnect_run fresh))
       = task (run quiet reconnect_run fresh)"
proof -
  have a: "auto_reconnect fresh" by (simp add: fresh_def)
  have b: "task fresh = None" by (simp add: fresh_def)
  have c: "sleeps (trace fresh) = []" by (simp add: fresh_def)
  have d: "task (run quiet reconnect_run fresh) \<noteq> None" by code_simp
  show ?thesis
    using a b c d backoff_delays_sorted_never_reset [OF a b c, of quiet reconnect_run None]
    by simp
qed

end
